theory Spec2Isabelle
  imports Main
begin

section \<open>Python primitives used by \<open>chess_models.py\<close>\<close>

text \<open>
  Every exception the module can raise is a value. \<open>ValidationError\<close> is what pydantic
  raises when a field constraint (\<open>ge\<close>, \<open>le\<close>) is violated at construction (the
  specification calls it a range error); \<open>ValueError\<close> is what \<open>chr\<close> raises and what
  \<open>validate_board_dimensions\<close> raises (the specification calls the latter a dimension
  error); \<open>IndexError\<close> and \<open>KeyError\<close> come from list indexing and dictionary lookup.
\<close>

datatype error = ValidationError | ValueError | IndexError | KeyError

text \<open>
  \<open>ord\<close> and \<open>chr\<close>. Characters of the embedding are 8-bit, so \<open>chr\<close> is exact on the
  code points \<open>0..255\<close>; above that range Python would still return a character, while
  the embedding reports an error. Results of the form \<open>Inr _\<close> therefore carry over to
  the program.
\<close>

definition ord :: "char \<Rightarrow> int" where
  "ord c = of_char c"

definition chr :: "int \<Rightarrow> error + char" where
  "chr i = (if 0 \<le> i \<and> i < 256 then Inr (char_of i) else Inl ValueError)"

text \<open>\<open>str(n)\<close> for an integer: decimal digits, most significant first, with a sign.\<close>

fun digits :: "nat \<Rightarrow> string" where
  "digits n =
     (if n < 10 then [char_of (48 + n)]
      else digits (n div 10) @ [char_of (48 + n mod 10)])"

declare digits.simps [simp del]

definition str_int :: "int \<Rightarrow> string" where
  "str_int i = (if i < 0 then CHR ''-'' # digits (nat (- i)) else digits (nat i))"

text \<open>\<open>str.lower\<close> and \<open>str.upper\<close>, on the ASCII letters.\<close>

definition lower_char :: "char \<Rightarrow> char" where
  "lower_char c =
     (if 65 \<le> ord c \<and> ord c \<le> 90 then char_of (ord c + 32) else c)"

definition upper_char :: "char \<Rightarrow> char" where
  "upper_char c =
     (if 97 \<le> ord c \<and> ord c \<le> 122 then char_of (ord c - 32) else c)"

definition lower :: "string \<Rightarrow> string" where
  "lower s = map lower_char s"

definition upper :: "string \<Rightarrow> string" where
  "upper s = map upper_char s"

text \<open>\<open>sep.join(xs)\<close>.\<close>

fun join :: "string \<Rightarrow> string list \<Rightarrow> string" where
  "join sep [] = []"
| "join sep [x] = x"
| "join sep (x # y # ys) = x @ sep @ join sep (y # ys)"

text \<open>
  List subscripts. An index \<open>i\<close> with \<open>0 \<le> i < len(xs)\<close> addresses element \<open>i\<close>, an
  index with \<open>-len(xs) \<le> i < 0\<close> addresses element \<open>len(xs) + i\<close>, and any other index
  raises \<open>IndexError\<close>. \<open>getitem\<close> is \<open>xs[i]\<close>, \<open>setitem\<close> is \<open>xs[i] = v\<close>.
\<close>

definition list_index :: "'a list \<Rightarrow> int \<Rightarrow> error + nat" where
  "list_index xs i =
     (if 0 \<le> i \<and> i < int (length xs) then Inr (nat i)
      else if i < 0 \<and> - int (length xs) \<le> i then Inr (nat (i + int (length xs)))
      else Inl IndexError)"

definition getitem :: "'a list \<Rightarrow> int \<Rightarrow> error + 'a" where
  "getitem xs i = (case list_index xs i of Inl e \<Rightarrow> Inl e | Inr j \<Rightarrow> Inr (xs ! j))"

definition setitem :: "'a list \<Rightarrow> int \<Rightarrow> 'a \<Rightarrow> error + 'a list" where
  "setitem xs i v =
     (case list_index xs i of Inl e \<Rightarrow> Inl e | Inr j \<Rightarrow> Inr (xs[j := v]))"

section \<open>Position\<close>

record Position =
  row :: int
  col :: int

text \<open>
  Both fields are declared with \<open>Field(..., ge=0, le=7)\<close>; \<open>Position_valid\<close> is
  the conjunction of these constraints, and the constructor of the pydantic model
  raises when one of them is violated.
\<close>

definition Position_valid :: "Position \<Rightarrow> bool" where
  "Position_valid self \<longleftrightarrow>
     0 \<le> row self \<and> row self \<le> 7 \<and> 0 \<le> col self \<and> col self \<le> 7"

definition Position_new :: "int \<Rightarrow> int \<Rightarrow> error + Position" where
  "Position_new r c =
     (if Position_valid \<lparr>row = r, col = c\<rparr>
      then Inr \<lparr>row = r, col = c\<rparr> else Inl ValidationError)"

definition to_tuple :: "Position \<Rightarrow> int \<times> int" where
  "to_tuple self = (row self, col self)"

definition to_algebraic :: "Position \<Rightarrow> error + string" where
  "to_algebraic self =
     (case chr (col self + ord CHR ''a'') of
        Inl e \<Rightarrow> Inl e
      | Inr letter \<Rightarrow> Inr (letter # str_int (8 - row self)))"

section \<open>Piece\<close>

datatype Color = White | Black

datatype PieceType = Pawn | Rook | Knight | Bishop | Queen | King

record Piece =
  color :: Color
  type :: PieceType

definition piece_map :: "PieceType \<rightharpoonup> string" where
  "piece_map =
     [Pawn \<mapsto> ''P'', Rook \<mapsto> ''R'', Knight \<mapsto> ''N'',
      Bishop \<mapsto> ''B'', Queen \<mapsto> ''Q'', King \<mapsto> ''K'']"

text \<open>\<open>Piece.__str__\<close>.\<close>

definition Piece_str :: "Piece \<Rightarrow> error + string" where
  "Piece_str self =
     (case piece_map (type self) of
        None \<Rightarrow> Inl KeyError
      | Some symbol \<Rightarrow> Inr (if color self = White then lower symbol else symbol))"

section \<open>PieceMove\<close>

record PieceMove =
  piece :: Piece
  from_position :: Position
  to_position :: Position

text \<open>\<open>PieceMove.__str__\<close>.\<close>

definition PieceMove_str :: "PieceMove \<Rightarrow> error + string" where
  "PieceMove_str self =
     (case Piece_str (piece self) of
        Inl e \<Rightarrow> Inl e
      | Inr s \<Rightarrow>
          (let piece_str = upper s;
               piece_str = (if type (piece self) = Pawn then [] else piece_str)
           in case to_algebraic (from_position self) of
                Inl e \<Rightarrow> Inl e
              | Inr src \<Rightarrow>
                  (case to_algebraic (to_position self) of
                     Inl e \<Rightarrow> Inl e
                   | Inr dst \<Rightarrow> Inr (piece_str @ src @ dst))))"

section \<open>Chessboard\<close>

record Chessboard =
  board :: "Piece option list list"

definition validate_board_dimensions ::
    "Piece option list list \<Rightarrow> error + Piece option list list" where
  "validate_board_dimensions v =
     (if length v \<noteq> 8 \<or> list_ex (\<lambda>row. length row \<noteq> 8) v
      then Inl ValueError else Inr v)"

text \<open>
  The constructor of the pydantic model. \<open>validate_board_dimensions\<close> is an ordinary
  method of the class: the module imports pydantic's \<open>validator\<close> but never applies it,
  so no validator is registered for the field \<open>board\<close> and construction only stores
  the grid.
\<close>

definition Chessboard_new :: "Piece option list list \<Rightarrow> error + Chessboard" where
  "Chessboard_new grid = Inr \<lparr>board = grid\<rparr>"

definition get_piece :: "Chessboard \<Rightarrow> Position \<Rightarrow> error + Piece option" where
  "get_piece self position =
     (case getitem (board self) (row position) of
        Inl e \<Rightarrow> Inl e
      | Inr r \<Rightarrow> getitem r (col position))"

text \<open>
  \<open>display\<close>. The inner loop builds \<open>display_row\<close> from one grid row; the outer loop
  runs over \<open>enumerate(reversed(self.board))\<close> and appends one line per row, \<open>i\<close>
  counting from 0; \<open>display_rows\<close> is the list \<open>rows\<close> before it is joined.
\<close>

fun display_row :: "Piece option list \<Rightarrow> error + string list" where
  "display_row [] = Inr []"
| "display_row (None # rest) =
     (case display_row rest of Inl e \<Rightarrow> Inl e | Inr cells \<Rightarrow> Inr (''.'' # cells))"
| "display_row (Some p # rest) =
     (case Piece_str p of
        Inl e \<Rightarrow> Inl e
      | Inr s \<Rightarrow>
          (case display_row rest of Inl e \<Rightarrow> Inl e | Inr cells \<Rightarrow> Inr (s # cells)))"

fun body_rows :: "int \<Rightarrow> Piece option list list \<Rightarrow> error + string list" where
  "body_rows i [] = Inr []"
| "body_rows i (r # rest) =
     (case display_row r of
        Inl e \<Rightarrow> Inl e
      | Inr cells \<Rightarrow>
          (case body_rows (i + 1) rest of
             Inl e \<Rightarrow> Inl e
           | Inr ls \<Rightarrow>
               Inr ((str_int (8 - i) @ '' | '' @ join '' '' cells @ '' |'') # ls)))"

definition display_rows :: "Chessboard \<Rightarrow> error + string list" where
  "display_rows self =
     (case body_rows 0 (rev (board self)) of
        Inl e \<Rightarrow> Inl e
      | Inr body \<Rightarrow>
          Inr ([''  A B C D E F G H'', '' +-----------------+''] @ body
               @ ['' +-----------------+'', ''  A B C D E F G H'']))"

definition display :: "Chessboard \<Rightarrow> error + string" where
  "display self =
     (case display_rows self of
        Inl e \<Rightarrow> Inl e
      | Inr rows \<Rightarrow> Inr (join [CHR 0x0A] rows))"

text \<open>
  \<open>create_initial_board\<close>: an empty 8x8 grid, four row assignments, then the
  constructor. The two back ranks are the same literal list of eight pieces up to the
  colour; \<open>back_rank\<close> is that list.
\<close>

definition back_rank :: "Color \<Rightarrow> Piece option list" where
  "back_rank c =
     [Some \<lparr>color = c, type = Rook\<rparr>, Some \<lparr>color = c, type = Knight\<rparr>,
      Some \<lparr>color = c, type = Bishop\<rparr>, Some \<lparr>color = c, type = Queen\<rparr>,
      Some \<lparr>color = c, type = King\<rparr>, Some \<lparr>color = c, type = Bishop\<rparr>,
      Some \<lparr>color = c, type = Knight\<rparr>, Some \<lparr>color = c, type = Rook\<rparr>]"

definition create_initial_board :: "error + Chessboard" where
  "create_initial_board =
     (let b = replicate 8 (replicate 8 None) in
      case setitem b 0 (back_rank Black) of
        Inl e \<Rightarrow> Inl e
      | Inr b \<Rightarrow>
      (case setitem b 1 (replicate 8 (Some \<lparr>color = Black, type = Pawn\<rparr>)) of
        Inl e \<Rightarrow> Inl e
      | Inr b \<Rightarrow>
      (case setitem b 6 (replicate 8 (Some \<lparr>color = White, type = Pawn\<rparr>)) of
        Inl e \<Rightarrow> Inl e
      | Inr b \<Rightarrow>
      (case setitem b 7 (back_rank White) of
        Inl e \<Rightarrow> Inl e
      | Inr b \<Rightarrow> Chessboard_new b))))"

section \<open>Facts about the primitives\<close>

lemma str_int_rank:
  assumes "0 \<le> r" "r \<le> 7"
  shows "str_int (8 - r) = [''0123456789'' ! nat (8 - r)]"
proof -
  from assms have "r \<in> {0, 1, 2, 3, 4, 5, 6, 7}" by auto
  then show ?thesis
    by (auto simp: str_int_def digits.simps char_of_def bit_0)
qed

lemma chr_file:
  assumes "0 \<le> c" "c \<le> 7"
  shows "chr (c + ord CHR ''a'') = Inr (''abcdefgh'' ! nat c)"
proof -
  from assms have "c \<in> {0, 1, 2, 3, 4, 5, 6, 7}" by auto
  then show ?thesis
    by (auto simp: chr_def ord_def char_of_def)
qed

lemma to_algebraic_valid:
  assumes "Position_valid p"
  shows "to_algebraic p =
    Inr [''abcdefgh'' ! nat (col p), ''0123456789'' ! nat (8 - row p)]"
  using assms by (simp add: Position_valid_def to_algebraic_def chr_file str_int_rank)

lemma Piece_str_table:
  "Piece_str p = Inr
     (case color p of
        Black \<Rightarrow> (case type p of Pawn \<Rightarrow> ''P'' | Rook \<Rightarrow> ''R'' | Knight \<Rightarrow> ''N''
                   | Bishop \<Rightarrow> ''B'' | Queen \<Rightarrow> ''Q'' | King \<Rightarrow> ''K'')
      | White \<Rightarrow> (case type p of Pawn \<Rightarrow> ''p'' | Rook \<Rightarrow> ''r'' | Knight \<Rightarrow> ''n''
                   | Bishop \<Rightarrow> ''b'' | Queen \<Rightarrow> ''q'' | King \<Rightarrow> ''k''))"
  by (cases "color p"; cases "type p")
     (simp_all add: Piece_str_def piece_map_def lower_def lower_char_def ord_def char_of_def)

lemma Piece_str_inj: "Piece_str p = Piece_str (q::Piece) \<Longrightarrow> p = q"
  by (cases p; cases q; cases "color p"; cases "type p"; cases "color q"; cases "type q")
     (simp_all add: Piece_str_table)

lemma upper_Piece_str:
  "upper (case color p of
        Black \<Rightarrow> (case type p of Pawn \<Rightarrow> ''P'' | Rook \<Rightarrow> ''R'' | Knight \<Rightarrow> ''N''
                   | Bishop \<Rightarrow> ''B'' | Queen \<Rightarrow> ''Q'' | King \<Rightarrow> ''K'')
      | White \<Rightarrow> (case type p of Pawn \<Rightarrow> ''p'' | Rook \<Rightarrow> ''r'' | Knight \<Rightarrow> ''n''
                   | Bishop \<Rightarrow> ''b'' | Queen \<Rightarrow> ''q'' | King \<Rightarrow> ''k''))
   = (case type p of Pawn \<Rightarrow> ''P'' | Rook \<Rightarrow> ''R'' | Knight \<Rightarrow> ''N''
      | Bishop \<Rightarrow> ''B'' | Queen \<Rightarrow> ''Q'' | King \<Rightarrow> ''K'')"
  by (cases "color p"; cases "type p")
     (simp_all add: upper_def upper_char_def ord_def char_of_def)

lemma file_letter_inj:
  assumes "0 \<le> c" "c \<le> 7" "0 \<le> c'" "c' \<le> 7"
    and "''abcdefgh'' ! nat c = ''abcdefgh'' ! nat c'"
  shows "c = c'"
proof -
  have "distinct ''abcdefgh''" by simp
  moreover from assms have "nat c < length ''abcdefgh''" "nat c' < length ''abcdefgh''"
    by simp_all
  ultimately have "nat c = nat c'"
    using assms(5) by (simp only: nth_eq_iff_index_eq)
  with assms show ?thesis by simp
qed

lemma rank_digit_inj:
  assumes "0 \<le> r" "r \<le> 7" "0 \<le> r'" "r' \<le> 7"
    and "''0123456789'' ! nat (8 - r) = ''0123456789'' ! nat (8 - r')"
  shows "r = r'"
proof -
  have "distinct ''0123456789''" by simp
  moreover from assms have
    "nat (8 - r) < length ''0123456789''" "nat (8 - r') < length ''0123456789''"
    by simp_all
  ultimately have "nat (8 - r) = nat (8 - r')"
    using assms(5) by (simp only: nth_eq_iff_index_eq)
  with assms show ?thesis by simp
qed

lemma file_letter_mem:
  assumes "0 \<le> c" "c \<le> 7"
  shows "''abcdefgh'' ! nat c \<in> set ''abcdefgh''"
  using assms by (intro nth_mem) simp

lemma rank_digit_mem:
  assumes "0 \<le> r" "r \<le> 7"
  shows "''0123456789'' ! nat (8 - r) \<in> set ''12345678''"
proof -
  from assms have "r \<in> {0, 1, 2, 3, 4, 5, 6, 7}" by auto
  then show ?thesis by auto
qed

lemma file_letter_surj:
  assumes "f \<in> set ''abcdefgh''"
  shows "\<exists>c. 0 \<le> c \<and> c \<le> 7 \<and> ''abcdefgh'' ! nat c = f"
proof -
  from assms obtain i where "i < length ''abcdefgh''" "''abcdefgh'' ! i = f"
    by (auto simp only: in_set_conv_nth)
  then have "0 \<le> int i \<and> int i \<le> 7 \<and> ''abcdefgh'' ! nat (int i) = f" by simp
  then show ?thesis ..
qed

lemma rank_digit_surj:
  assumes "d \<in> set ''12345678''"
  shows "\<exists>r. 0 \<le> r \<and> r \<le> 7 \<and> ''0123456789'' ! nat (8 - r) = d"
proof -
  from assms obtain i where i: "i < length ''12345678''" "''12345678'' ! i = d"
    by (auto simp only: in_set_conv_nth)
  then have "i \<in> {0, 1, 2, 3, 4, 5, 6, 7}" by auto
  then have "''0123456789'' ! nat (8 - (7 - int i)) = ''12345678'' ! i" by auto
  with i have "0 \<le> 7 - int i \<and> 7 - int i \<le> 7
      \<and> ''0123456789'' ! nat (8 - (7 - int i)) = d"
    by simp
  then show ?thesis ..
qed

lemma to_algebraic_inj_on: "inj_on to_algebraic {p. Position_valid p}"
proof (rule inj_onI)
  fix p q :: Position
  assume "p \<in> {p. Position_valid p}" "q \<in> {p. Position_valid p}"
  then have v: "Position_valid p" "Position_valid q" by simp_all
  assume "to_algebraic p = to_algebraic q"
  with v have eq: "''abcdefgh'' ! nat (col p) = ''abcdefgh'' ! nat (col q)"
      "''0123456789'' ! nat (8 - row p) = ''0123456789'' ! nat (8 - row q)"
    by (simp_all add: to_algebraic_valid)
  from v eq have "col p = col q"
    by (intro file_letter_inj) (simp_all add: Position_valid_def)
  moreover from v eq have "row p = row q"
    by (intro rank_digit_inj) (simp_all add: Position_valid_def)
  ultimately show "p = q" by simp
qed

lemma to_algebraic_image:
  "to_algebraic ` {p. Position_valid p}
   = {Inr [f, d] | f d. f \<in> set ''abcdefgh'' \<and> d \<in> set ''12345678''}"
  (is "?L = ?R")
proof
  show "?L \<subseteq> ?R"
  proof
    fix s assume "s \<in> ?L"
    then obtain p where p: "Position_valid p" "s = to_algebraic p" by auto
    then have "s = Inr [''abcdefgh'' ! nat (col p), ''0123456789'' ! nat (8 - row p)]"
      by (simp add: to_algebraic_valid)
    moreover from p have "''abcdefgh'' ! nat (col p) \<in> set ''abcdefgh''"
      by (intro file_letter_mem) (simp_all add: Position_valid_def)
    moreover from p have "''0123456789'' ! nat (8 - row p) \<in> set ''12345678''"
      by (intro rank_digit_mem) (simp_all add: Position_valid_def)
    ultimately show "s \<in> ?R" by blast
  qed
  show "?R \<subseteq> ?L"
  proof
    fix s assume "s \<in> ?R"
    then obtain f d where s: "s = Inr [f, d]"
      and f: "f \<in> set ''abcdefgh''" and d: "d \<in> set ''12345678''" by blast
    from file_letter_surj [OF f] obtain c
      where c: "0 \<le> c" "c \<le> 7" "''abcdefgh'' ! nat c = f" by blast
    from rank_digit_surj [OF d] obtain r
      where r: "0 \<le> r" "r \<le> 7" "''0123456789'' ! nat (8 - r) = d" by blast
    let ?p = "\<lparr>row = r, col = c\<rparr>"
    from c r have v: "Position_valid ?p" by (simp add: Position_valid_def)
    with c r s have "to_algebraic ?p = s" by (simp add: to_algebraic_valid)
    with v show "s \<in> ?L" by blast
  qed
qed

lemma card_Position_valid: "card {p::Position. Position_valid p} = 64"
proof -
  have "{p::Position. Position_valid p}
        = (\<lambda>(r, c). \<lparr>row = r, col = c\<rparr>) ` ({0..7} \<times> {0..7})" (is "?A = ?f ` ?B")
  proof
    show "?A \<subseteq> ?f ` ?B"
    proof
      fix p :: Position assume "p \<in> ?A"
      then have "(row p, col p) \<in> ?B" "p = ?f (row p, col p)"
        by (simp_all add: Position_valid_def)
      then show "p \<in> ?f ` ?B" by (rule_tac image_eqI)
    qed
    show "?f ` ?B \<subseteq> ?A" by (auto simp: Position_valid_def)
  qed
  moreover have "inj_on ?f ?B" by (auto simp: inj_on_def)
  ultimately have "card ?A = card ?B" by (simp add: card_image)
  then show ?thesis by simp
qed

lemma replicate_8: "replicate 8 x = [x, x, x, x, x, x, x, x]"
  by (simp add: eval_nat_numeral)

lemma str_int_digit:
  "str_int 1 = ''1''" "str_int 2 = ''2''" "str_int 3 = ''3''" "str_int 4 = ''4''"
  "str_int 5 = ''5''" "str_int 6 = ''6''" "str_int 7 = ''7''" "str_int 8 = ''8''"
  by (simp_all add: str_int_def digits.simps char_of_def bit_0)

lemma getitem_in_range:
  "0 \<le> i \<Longrightarrow> i < int (length xs) \<Longrightarrow> getitem xs i = Inr (xs ! nat i)"
  by (simp add: getitem_def list_index_def)

lemma get_piece_valid:
  assumes "Position_valid p" "length (board b) = 8" "\<forall>r \<in> set (board b). length r = 8"
  shows "get_piece b p = Inr (board b ! nat (row p) ! nat (col p))"
proof -
  from assms have r: "0 \<le> row p" "row p < int (length (board b))"
    and c: "0 \<le> col p" "col p < 8"
    by (simp_all add: Position_valid_def)
  from r assms have "board b ! nat (row p) \<in> set (board b)"
    by (intro nth_mem) simp
  with assms have "length (board b ! nat (row p)) = 8" by blast
  with r c show ?thesis by (simp add: get_piece_def getitem_in_range)
qed

lemma initial_grid:
  "create_initial_board = Inr \<lparr>board =
     [[Some \<lparr>color = Black, type = Rook\<rparr>, Some \<lparr>color = Black, type = Knight\<rparr>,
       Some \<lparr>color = Black, type = Bishop\<rparr>, Some \<lparr>color = Black, type = Queen\<rparr>,
       Some \<lparr>color = Black, type = King\<rparr>, Some \<lparr>color = Black, type = Bishop\<rparr>,
       Some \<lparr>color = Black, type = Knight\<rparr>, Some \<lparr>color = Black, type = Rook\<rparr>],
      replicate 8 (Some \<lparr>color = Black, type = Pawn\<rparr>),
      replicate 8 None, replicate 8 None, replicate 8 None, replicate 8 None,
      replicate 8 (Some \<lparr>color = White, type = Pawn\<rparr>),
      [Some \<lparr>color = White, type = Rook\<rparr>, Some \<lparr>color = White, type = Knight\<rparr>,
       Some \<lparr>color = White, type = Bishop\<rparr>, Some \<lparr>color = White, type = Queen\<rparr>,
       Some \<lparr>color = White, type = King\<rparr>, Some \<lparr>color = White, type = Bishop\<rparr>,
       Some \<lparr>color = White, type = Knight\<rparr>, Some \<lparr>color = White, type = Rook\<rparr>]]\<rparr>"
  by (simp add: create_initial_board_def setitem_def list_index_def Chessboard_new_def
        back_rank_def eval_nat_numeral)

text \<open>
  The rendering loops never raise, and line \<open>i\<close> of the body is built from element \<open>i\<close>
  of the reversed grid, that is from grid row \<open>7 - i\<close> of a board with eight rows.
\<close>

lemma display_row_total: "\<exists>cells. display_row r = Inr cells \<and> length cells = length r"
  by (induction r rule: display_row.induct) (auto simp: Piece_str_table)

lemma body_rows_total: "\<exists>ls. body_rows k xs = Inr ls \<and> length ls = length xs"
proof (induction xs arbitrary: k)
  case Nil
  then show ?case by simp
next
  case (Cons r rest)
  obtain cells where "display_row r = Inr cells"
    using display_row_total by blast
  moreover obtain ls where "body_rows (k + 1) rest = Inr ls" "length ls = length rest"
    using Cons.IH by blast
  ultimately show ?case by simp
qed

lemma body_rows_nth:
  "i < length xs \<Longrightarrow>
   \<exists>ls cells. body_rows k xs = Inr ls \<and> length ls = length xs
      \<and> display_row (xs ! i) = Inr cells
      \<and> ls ! i = str_int (8 - (k + int i)) @ '' | '' @ join '' '' cells @ '' |''"
proof (induction xs arbitrary: k i)
  case Nil
  then show ?case by simp
next
  case (Cons r rest)
  obtain cells where cells: "display_row r = Inr cells"
    using display_row_total by blast
  show ?case
  proof (cases i)
    case 0
    obtain ls where "body_rows (k + 1) rest = Inr ls" "length ls = length rest"
      using body_rows_total by blast
    with cells 0 show ?thesis by simp
  next
    case (Suc j)
    with Cons.prems have "j < length rest" by simp
    from Cons.IH [OF this, of "k + 1"] obtain ls cs where
      "body_rows (k + 1) rest = Inr ls" "length ls = length rest"
      "display_row (rest ! j) = Inr cs"
      "ls ! j = str_int (8 - (k + 1 + int j)) @ '' | '' @ join '' '' cs @ '' |''"
      by blast
    with cells Suc show ?thesis by (simp add: add.assoc add.commute)
  qed
qed

lemma display_rows_body_line:
  assumes "length (board b) = 8" "i < 8"
  shows "\<exists>rows cells. display_rows b = Inr rows \<and> length rows = 12
      \<and> display_row (board b ! (7 - i)) = Inr cells
      \<and> rows ! (2 + i) = str_int (8 - int i) @ '' | '' @ join '' '' cells @ '' |''"
proof -
  from assms have "i < length (rev (board b))" by simp
  from body_rows_nth [OF this, of 0] obtain ls cells where
    ls: "body_rows 0 (rev (board b)) = Inr ls" "length ls = 8"
      "display_row (rev (board b) ! i) = Inr cells"
      "ls ! i = str_int (8 - int i) @ '' | '' @ join '' '' cells @ '' |''"
    using assms by auto
  from assms have "rev (board b) ! i = board b ! (7 - i)"
    by (simp add: rev_nth)
  with ls assms show ?thesis
    by (simp add: display_rows_def nth_append)
qed

lemma display_total: "\<exists>s. display b = Inr s"
proof -
  obtain ls where "body_rows 0 (rev (board b)) = Inr ls"
    using body_rows_total by blast
  then show ?thesis by (simp add: display_def display_rows_def)
qed

section \<open>Position: construction and algebraic notation\<close>

text \<open>
  Claim C3. Constructing a position fails with the validation error whenever a
  coordinate lies outside \<open>0..7\<close>, and then no position value is returned; rows 8 and
  column \<open>-1\<close> are rejected.
\<close>

theorem Position_new_out_of_range:
  assumes "r < 0 \<or> 7 < r \<or> c < 0 \<or> 7 < c"
  shows "Position_new r c = Inl ValidationError \<and> (\<forall>p. Position_new r c \<noteq> Inr p)
    \<and> Position_new 8 0 = Inl ValidationError
    \<and> Position_new 0 (- 1) = Inl ValidationError"
  using assms by (auto simp: Position_new_def Position_valid_def)

theorem Position_new_out_of_range_witness:
  "((3::int) < 0 \<or> (7::int) < 3 \<or> (9::int) < 0 \<or> (7::int) < 9)
   \<and> Position_new 3 9 = Inl ValidationError \<and> (\<forall>p. Position_new 3 9 \<noteq> Inr p)"
  using Position_new_out_of_range [of 3 9] by simp

text \<open>
  Claim C4. For row and column in \<open>0..7\<close> the position is constructed and its algebraic
  form is the column letter (\<open>a\<close> for column 0 up to \<open>h\<close> for column 7) followed by the
  decimal digit of \<open>8 - row\<close>; the corners \<open>(0,0)\<close>, \<open>(7,7)\<close> and \<open>(7,0)\<close> give \<open>a8\<close>,
  \<open>h1\<close> and \<open>a1\<close>.
\<close>

theorem to_algebraic_letter_digit:
  assumes "0 \<le> r" "r \<le> 7" "0 \<le> c" "c \<le> 7"
  shows "(\<exists>p. Position_new r c = Inr p \<and>
            to_algebraic p = Inr [''abcdefgh'' ! nat c, ''0123456789'' ! nat (8 - r)])
    \<and> to_algebraic \<lparr>row = 0, col = 0\<rparr> = Inr ''a8''
    \<and> to_algebraic \<lparr>row = 7, col = 7\<rparr> = Inr ''h1''
    \<and> to_algebraic \<lparr>row = 7, col = 0\<rparr> = Inr ''a1''"
proof -
  let ?p = "\<lparr>row = r, col = c\<rparr>"
  from assms have v: "Position_valid ?p"
    by (simp add: Position_valid_def)
  then have "Position_new r c = Inr ?p"
    by (simp add: Position_new_def)
  moreover from v
  have "to_algebraic ?p = Inr [''abcdefgh'' ! nat c, ''0123456789'' ! nat (8 - r)]"
    using to_algebraic_valid [of ?p] by simp
  moreover have "to_algebraic \<lparr>row = 0, col = 0\<rparr> = Inr ''a8''"
    by (simp add: to_algebraic_valid Position_valid_def)
  moreover have "to_algebraic \<lparr>row = 7, col = 7\<rparr> = Inr ''h1''"
    by (simp add: to_algebraic_valid Position_valid_def)
  moreover have "to_algebraic \<lparr>row = 7, col = 0\<rparr> = Inr ''a1''"
    by (simp add: to_algebraic_valid Position_valid_def)
  ultimately show ?thesis by blast
qed

theorem to_algebraic_letter_digit_witness:
  "(0::int) \<le> 4 \<and> (4::int) \<le> 7
   \<and> (\<exists>p. Position_new 4 4 = Inr p \<and> to_algebraic p = Inr ''e4'')"
  using to_algebraic_letter_digit [of 4 4] by simp

text \<open>
  Claim C5. On the 64 valid positions the algebraic form is a letter of \<open>a..h\<close> followed
  by a digit of \<open>1..8\<close>, and the conversion is a bijection between the 64 positions and
  the 64 strings of that shape: distinct positions give distinct strings and every such
  string is the form of exactly one position.
\<close>

theorem to_algebraic_bijection:
  "bij_betw to_algebraic {p. Position_valid p}
     {Inr [f, d] | f d. f \<in> set ''abcdefgh'' \<and> d \<in> set ''12345678''}
   \<and> card {p::Position. Position_valid p} = 64
   \<and> card {Inr [f, d] :: error + string | f d.
        f \<in> set ''abcdefgh'' \<and> d \<in> set ''12345678''} = 64"
proof -
  have b: "bij_betw to_algebraic {p. Position_valid p}
     {Inr [f, d] | f d. f \<in> set ''abcdefgh'' \<and> d \<in> set ''12345678''}"
    using to_algebraic_inj_on to_algebraic_image by (rule bij_betw_imageI)
  from bij_betw_same_card [OF b] card_Position_valid b show ?thesis
    by (simp only: simp_thms)
qed

theorem to_algebraic_bijection_witness:
  "\<exists>p. Position_valid p \<and> to_algebraic p = Inr ''c5''"
proof -
  have "Inr ''c5'' \<in> {Inr [f, d] | f d. f \<in> set ''abcdefgh'' \<and> d \<in> set ''12345678''}"
    by simp
  with to_algebraic_bijection
  have "Inr ''c5'' \<in> to_algebraic ` {p. Position_valid p}"
    by (simp only: bij_betw_def)
  then show ?thesis by auto
qed

section \<open>Piece: the symbol\<close>

text \<open>
  Claim C8. The symbol of a piece is the letter of its kind (pawn \<open>P\<close>, rook \<open>R\<close>,
  knight \<open>N\<close>, bishop \<open>B\<close>, queen \<open>Q\<close>, king \<open>K\<close>), in upper case for a black piece and
  in lower case for a white one; a white pawn gives \<open>p\<close> and a black queen \<open>Q\<close>.
\<close>

theorem Piece_str_symbol:
  "Piece_str p = Inr
     (case color p of
        Black \<Rightarrow> (case type p of Pawn \<Rightarrow> ''P'' | Rook \<Rightarrow> ''R'' | Knight \<Rightarrow> ''N''
                   | Bishop \<Rightarrow> ''B'' | Queen \<Rightarrow> ''Q'' | King \<Rightarrow> ''K'')
      | White \<Rightarrow> (case type p of Pawn \<Rightarrow> ''p'' | Rook \<Rightarrow> ''r'' | Knight \<Rightarrow> ''n''
                   | Bishop \<Rightarrow> ''b'' | Queen \<Rightarrow> ''q'' | King \<Rightarrow> ''k''))
   \<and> Piece_str \<lparr>color = White, type = Pawn\<rparr> = Inr ''p''
   \<and> Piece_str \<lparr>color = Black, type = Queen\<rparr> = Inr ''Q''"
  by (simp add: Piece_str_table)

text \<open>
  Claim C10. The symbol is injective on the twelve pieces: two pieces have the same
  symbol exactly when they have the same colour and kind. No symbol is the dot that
  marks an empty cell, so every cell of a rendered board is read back unambiguously.
\<close>

theorem Piece_str_injective:
  "(Piece_str p = Piece_str (q::Piece) \<longleftrightarrow> p = q) \<and> Piece_str p \<noteq> Inr ''.''"
proof -
  have "Piece_str p \<noteq> Inr ''.''"
    by (cases "color p"; cases "type p") (simp_all add: Piece_str_table)
  then show ?thesis using Piece_str_inj by blast
qed

theorem Piece_str_injective_witness:
  "Piece_str \<lparr>color = White, type = King\<rparr> \<noteq> Piece_str \<lparr>color = Black, type = King\<rparr>"
  using Piece_str_injective
    [of "\<lparr>color = White, type = King\<rparr>" "\<lparr>color = Black, type = King\<rparr>"]
  by simp

section \<open>PieceMove: algebraic rendering\<close>

text \<open>
  Claim C7. A move between two valid positions renders as the letter of the piece's
  kind, in upper case whatever the colour and absent for a pawn, followed by the
  algebraic form of the source and then of the destination. A white pawn from \<open>(6,4)\<close>
  to \<open>(4,4)\<close> gives \<open>e2e4\<close>, a black knight from \<open>(0,1)\<close> to \<open>(2,2)\<close> gives \<open>Nb8c6\<close>.
\<close>

theorem PieceMove_str_algebraic:
  assumes "Position_valid (from_position m)" "Position_valid (to_position m)"
  shows "(\<exists>src dst. to_algebraic (from_position m) = Inr src
            \<and> to_algebraic (to_position m) = Inr dst
            \<and> PieceMove_str m = Inr
                ((case type (piece m) of Pawn \<Rightarrow> [] | Rook \<Rightarrow> ''R'' | Knight \<Rightarrow> ''N''
                  | Bishop \<Rightarrow> ''B'' | Queen \<Rightarrow> ''Q'' | King \<Rightarrow> ''K'') @ src @ dst))
   \<and> PieceMove_str \<lparr>piece = \<lparr>color = White, type = Pawn\<rparr>,
        from_position = \<lparr>row = 6, col = 4\<rparr>, to_position = \<lparr>row = 4, col = 4\<rparr>\<rparr>
       = Inr ''e2e4''
   \<and> PieceMove_str \<lparr>piece = \<lparr>color = Black, type = Knight\<rparr>,
        from_position = \<lparr>row = 0, col = 1\<rparr>, to_position = \<lparr>row = 2, col = 2\<rparr>\<rparr>
       = Inr ''Nb8c6''"
proof -
  have gen: "PieceMove_str m = Inr
                ((case type (piece m) of Pawn \<Rightarrow> [] | Rook \<Rightarrow> ''R'' | Knight \<Rightarrow> ''N''
                  | Bishop \<Rightarrow> ''B'' | Queen \<Rightarrow> ''Q'' | King \<Rightarrow> ''K'')
                 @ [''abcdefgh'' ! nat (col (from_position m)),
                    ''0123456789'' ! nat (8 - row (from_position m))]
                 @ [''abcdefgh'' ! nat (col (to_position m)),
                    ''0123456789'' ! nat (8 - row (to_position m))])"
    using assms
    by (cases "type (piece m)")
       (simp_all add: PieceMove_str_def Piece_str_table upper_Piece_str to_algebraic_valid)
  have e1: "PieceMove_str \<lparr>piece = \<lparr>color = White, type = Pawn\<rparr>,
        from_position = \<lparr>row = 6, col = 4\<rparr>, to_position = \<lparr>row = 4, col = 4\<rparr>\<rparr>
       = Inr ''e2e4''"
    by (simp add: PieceMove_str_def Piece_str_table to_algebraic_valid Position_valid_def)
  have e2: "PieceMove_str \<lparr>piece = \<lparr>color = Black, type = Knight\<rparr>,
        from_position = \<lparr>row = 0, col = 1\<rparr>, to_position = \<lparr>row = 2, col = 2\<rparr>\<rparr>
       = Inr ''Nb8c6''"
    by (simp add: PieceMove_str_def Piece_str_table to_algebraic_valid Position_valid_def
          upper_def upper_char_def ord_def)
  from assms gen e1 e2 show ?thesis
    by (simp add: to_algebraic_valid)
qed

theorem PieceMove_str_algebraic_witness:
  "Position_valid \<lparr>row = 0, col = 3\<rparr> \<and> Position_valid \<lparr>row = 4, col = 7\<rparr>
   \<and> PieceMove_str \<lparr>piece = \<lparr>color = White, type = Queen\<rparr>,
        from_position = \<lparr>row = 0, col = 3\<rparr>, to_position = \<lparr>row = 4, col = 7\<rparr>\<rparr>
       = Inr ''Qd8h4''"
  using PieceMove_str_algebraic
    [of "\<lparr>piece = \<lparr>color = White, type = Queen\<rparr>,
          from_position = \<lparr>row = 0, col = 3\<rparr>, to_position = \<lparr>row = 4, col = 7\<rparr>\<rparr>"]
  by (simp add: Position_valid_def to_algebraic_valid)

section \<open>Chessboard: construction, lookup and rendering\<close>

text \<open>
  Claim C1. The claim is that a grid that is not 8x8 is rejected at construction. In
  the program a grid of seven rows of eight empty cells is accepted: the constructor
  returns a board holding it, although \<open>validate_board_dimensions\<close> applied to the same
  grid raises, and a lookup at row 7 of that board then fails with \<open>IndexError\<close>.
\<close>

theorem Chessboard_new_seven_rows:
  "Chessboard_new (replicate 7 (replicate 8 None))
     = Inr \<lparr>board = replicate 7 (replicate 8 None)\<rparr>
   \<and> validate_board_dimensions (replicate 7 (replicate 8 None)) = Inl ValueError
   \<and> get_piece \<lparr>board = replicate 7 (replicate 8 None)\<rparr> \<lparr>row = 7, col = 0\<rparr>
     = Inl IndexError"
  by (simp add: Chessboard_new_def validate_board_dimensions_def get_piece_def getitem_def
        list_index_def)

theorem Chessboard_new_seven_rows_witness:
  "\<exists>b. Chessboard_new (replicate 7 (replicate 8 None)) = Inr b
     \<and> length (board b) = 7
     \<and> validate_board_dimensions (board b) = Inl ValueError"
  using Chessboard_new_seven_rows by simp

text \<open>
  Claim C6. The initial board is the standard setup: row 0 is the black back rank rook,
  knight, bishop, queen, king, bishop, knight, rook, row 1 eight black pawns, rows 2 to
  5 empty, row 6 eight white pawns, row 7 the white back rank in the same order. The
  piece at \<open>(0,4)\<close> is the black king, at \<open>(7,4)\<close> the white king, and \<open>(3,3)\<close> is empty.
\<close>

theorem create_initial_board_standard:
  "\<exists>b. create_initial_board = Inr b
     \<and> board b =
     [[Some \<lparr>color = Black, type = Rook\<rparr>, Some \<lparr>color = Black, type = Knight\<rparr>,
       Some \<lparr>color = Black, type = Bishop\<rparr>, Some \<lparr>color = Black, type = Queen\<rparr>,
       Some \<lparr>color = Black, type = King\<rparr>, Some \<lparr>color = Black, type = Bishop\<rparr>,
       Some \<lparr>color = Black, type = Knight\<rparr>, Some \<lparr>color = Black, type = Rook\<rparr>],
      replicate 8 (Some \<lparr>color = Black, type = Pawn\<rparr>),
      replicate 8 None, replicate 8 None, replicate 8 None, replicate 8 None,
      replicate 8 (Some \<lparr>color = White, type = Pawn\<rparr>),
      [Some \<lparr>color = White, type = Rook\<rparr>, Some \<lparr>color = White, type = Knight\<rparr>,
       Some \<lparr>color = White, type = Bishop\<rparr>, Some \<lparr>color = White, type = Queen\<rparr>,
       Some \<lparr>color = White, type = King\<rparr>, Some \<lparr>color = White, type = Bishop\<rparr>,
       Some \<lparr>color = White, type = Knight\<rparr>, Some \<lparr>color = White, type = Rook\<rparr>]]
     \<and> get_piece b \<lparr>row = 0, col = 4\<rparr> = Inr (Some \<lparr>color = Black, type = King\<rparr>)
     \<and> get_piece b \<lparr>row = 7, col = 4\<rparr> = Inr (Some \<lparr>color = White, type = King\<rparr>)
     \<and> get_piece b \<lparr>row = 3, col = 3\<rparr> = Inr None"
  by (simp add: initial_grid get_piece_def getitem_def list_index_def)

text \<open>
  Claim C2. The claim is that body line \<open>i\<close> of the diagram shows grid row \<open>i\<close> under
  the rank label \<open>8 - i\<close>. On the initial board the program prints, under the label 8,
  the lower-case white back rank, which is grid row 7, and under the label 1 the
  upper-case black back rank, which is grid row 0. The white king stands at row 7,
  column 4, whose algebraic form is \<open>e1\<close>, and is drawn on the line labelled 8.
\<close>

theorem display_initial_board:
  "\<exists>b. create_initial_board = Inr b
     \<and> display_rows b = Inr
         [''  A B C D E F G H'',
          '' +-----------------+'',
          ''8 | r n b q k b n r |'',
          ''7 | p p p p p p p p |'',
          ''6 | . . . . . . . . |'',
          ''5 | . . . . . . . . |'',
          ''4 | . . . . . . . . |'',
          ''3 | . . . . . . . . |'',
          ''2 | P P P P P P P P |'',
          ''1 | R N B Q K B N R |'',
          '' +-----------------+'',
          ''  A B C D E F G H'']
     \<and> display b = Inr
         (''  A B C D E F G H\<newline>'' @
          '' +-----------------+\<newline>'' @
          ''8 | r n b q k b n r |\<newline>'' @
          ''7 | p p p p p p p p |\<newline>'' @
          ''6 | . . . . . . . . |\<newline>'' @
          ''5 | . . . . . . . . |\<newline>'' @
          ''4 | . . . . . . . . |\<newline>'' @
          ''3 | . . . . . . . . |\<newline>'' @
          ''2 | P P P P P P P P |\<newline>'' @
          ''1 | R N B Q K B N R |\<newline>'' @
          '' +-----------------+\<newline>'' @
          ''  A B C D E F G H'')
     \<and> display_row (board b ! 0) = Inr [''R'', ''N'', ''B'', ''Q'', ''K'', ''B'', ''N'', ''R'']
     \<and> display_row (board b ! 7) = Inr [''r'', ''n'', ''b'', ''q'', ''k'', ''b'', ''n'', ''r'']
     \<and> get_piece b \<lparr>row = 7, col = 4\<rparr> = Inr (Some \<lparr>color = White, type = King\<rparr>)
     \<and> to_algebraic \<lparr>row = 7, col = 4\<rparr> = Inr ''e1''"
  by (simp add: initial_grid display_def display_rows_def replicate_8 Piece_str_table
        str_int_digit get_piece_def getitem_def list_index_def to_algebraic_valid
        Position_valid_def)

text \<open>
  Claim C9. On validly constructed inputs, that is positions with both coordinates in
  \<open>0..7\<close> and a board whose grid has eight rows of eight cells, no accessor raises:
  \<open>to_algebraic\<close>, \<open>to_tuple\<close>, the piece symbol, the move rendering, \<open>get_piece\<close> and
  \<open>display\<close> all return a value, and \<open>get_piece\<close> returns the addressed cell.
\<close>

theorem accessors_total:
  assumes "Position_valid p"
    and "Position_valid (from_position m)" "Position_valid (to_position m)"
    and "length (board b) = 8" "\<forall>r \<in> set (board b). length r = 8"
  shows "(\<exists>s. to_algebraic p = Inr s)
    \<and> to_tuple p = (row p, col p)
    \<and> (\<exists>s. Piece_str pc = Inr s)
    \<and> (\<exists>s. PieceMove_str m = Inr s)
    \<and> get_piece b p = Inr (board b ! nat (row p) ! nat (col p))
    \<and> (\<exists>s. display b = Inr s)"
proof -
  from assms(1) have "\<exists>s. to_algebraic p = Inr s"
    by (simp add: to_algebraic_valid)
  moreover have "to_tuple p = (row p, col p)"
    by (simp add: to_tuple_def)
  moreover have "\<exists>s. Piece_str pc = Inr s"
    by (simp add: Piece_str_table)
  moreover from assms(2,3) have "\<exists>s. PieceMove_str m = Inr s"
    by (simp add: PieceMove_str_def Piece_str_table to_algebraic_valid Let_def)
  moreover from assms(1,4,5)
  have "get_piece b p = Inr (board b ! nat (row p) ! nat (col p))"
    by (rule get_piece_valid)
  moreover have "\<exists>s. display b = Inr s"
    by (rule display_total)
  ultimately show ?thesis by blast
qed

theorem accessors_total_witness:
  "Position_valid \<lparr>row = 2, col = 5\<rparr> \<and> Position_valid \<lparr>row = 0, col = 0\<rparr>
   \<and> length (replicate 8 (replicate 8 (None :: Piece option))) = 8
   \<and> list_all (\<lambda>r. length r = 8) (replicate 8 (replicate 8 (None :: Piece option)))
   \<and> (\<exists>s. to_algebraic \<lparr>row = 2, col = 5\<rparr> = Inr s)
   \<and> (\<exists>s. PieceMove_str \<lparr>piece = \<lparr>color = Black, type = Rook\<rparr>,
          from_position = \<lparr>row = 0, col = 0\<rparr>, to_position = \<lparr>row = 2, col = 5\<rparr>\<rparr> = Inr s)
   \<and> get_piece \<lparr>board = replicate 8 (replicate 8 None)\<rparr> \<lparr>row = 2, col = 5\<rparr> = Inr None
   \<and> (\<exists>s. display \<lparr>board = replicate 8 (replicate 8 None)\<rparr> = Inr s)"
  using accessors_total [of "\<lparr>row = 2, col = 5\<rparr>"
      "\<lparr>piece = \<lparr>color = Black, type = Rook\<rparr>,
        from_position = \<lparr>row = 0, col = 0\<rparr>, to_position = \<lparr>row = 2, col = 5\<rparr>\<rparr>"
      "\<lparr>board = replicate 8 (replicate 8 None)\<rparr>"]
  by (simp add: Position_valid_def list_all_iff)

end
